theory Spec2Isabelle
  imports Main "HOL-Library.Log_Nat" "HOL-Library.AList"
begin

section \<open>Python values of the Ksenia Lares sensor platform\<close>

text \<open>
  The sensor platform (\<^verbatim>\<open>custom_components/ksenia_lares/sensor.py\<close>) works on records
  decoded from JSON: dictionaries with string keys whose values are \<^verbatim>\<open>None\<close>, booleans,
  integers, floats, strings, lists and nested dictionaries. A dictionary is an
  association list, looked up with \<open>map_of\<close> and updated with \<open>AList.update\<close> (which keeps
  the position of a key that is present and appends a new one, as Python does).
  Strings are lists of characters with code points 0 to 255.
\<close>

datatype pyfloat = Fin rat | NegZero | PosInf | NegInf | NaN

datatype pyval =
    PNone
  | PBool bool
  | PInt int
  | PFloat pyfloat
  | PStr string
  | PList "pyval list"
  | PDict "(string \<times> pyval) list"

type_synonym pydict = "(string \<times> pyval) list"

datatype pyerr =
    KeyError | AttributeError | TypeError | ValueError | OverflowError | IndexError
  | FetchError string

text \<open>One call of \<^verbatim>\<open>_LOGGER.error(msg, e)\<close>: the message and the exception caught.\<close>

type_synonym logentry = "string \<times> pyerr"

subsection \<open>Floats: binary64 values, rounding to nearest even\<close>

text \<open>
  A finite float is the rational it denotes (\<open>Fin 0\<close> is \<^verbatim>\<open>0.0\<close>, \<open>NegZero\<close> is
  \<^verbatim>\<open>-0.0\<close>). \<open>round_double\<close> rounds a rational to the nearest binary64 value (53
  bits of precision, least exponent \<open>-1074\<close>, ties to even, overflow to infinity), which
  is what \<^verbatim>\<open>float(str)\<close>, \<^verbatim>\<open>float(int)\<close> and float addition do.
\<close>

definition pow2 :: "int \<Rightarrow> rat" where
  "pow2 k = (if 0 \<le> k then 2 ^ nat k else 1 / 2 ^ nat (- k))"

definition pow10 :: "int \<Rightarrow> rat" where
  "pow10 k = (if 0 \<le> k then 10 ^ nat k else 1 / 10 ^ nat (- k))"

definition round_half_even :: "rat \<Rightarrow> int" where
  "round_half_even q =
     (let f = \<lfloor>q\<rfloor>; d = q - of_int f
      in if d < 1 / 2 then f else if 1 / 2 < d then f + 1
         else if even f then f else f + 1)"

definition ilog2 :: "rat \<Rightarrow> int" where
  \<comment> \<open>\<open>\<lfloor>log 2 a\<rfloor>\<close> for \<open>0 < a\<close>\<close>
  "ilog2 a =
     (case quotient_of a of (n, d) \<Rightarrow>
        let k = bitlen n - bitlen d in if pow2 k \<le> a then k else k - 1)"

definition round_double :: "rat \<Rightarrow> pyfloat" where
  "round_double q =
     (if q = 0 then Fin 0
      else
        let a = \<bar>q\<bar>;
            p = max (ilog2 a - 52) (- 1074);
            r = of_int (round_half_even (a / pow2 p)) * pow2 p
        in if pow2 1024 \<le> r then (if 0 < q then PosInf else NegInf)
           else if r = 0 then (if 0 < q then Fin 0 else NegZero)
           else Fin (if 0 < q then r else - r))"

fun fadd :: "pyfloat \<Rightarrow> pyfloat \<Rightarrow> pyfloat" where
  "fadd NaN y = NaN"
| "fadd x NaN = NaN"
| "fadd PosInf NegInf = NaN"
| "fadd NegInf PosInf = NaN"
| "fadd PosInf y = PosInf"
| "fadd x PosInf = PosInf"
| "fadd NegInf y = NegInf"
| "fadd x NegInf = NegInf"
| "fadd NegZero y = y"
| "fadd x NegZero = x"
| "fadd (Fin a) (Fin b) = (if a + b = 0 then Fin 0 else round_double (a + b))"

fun fgt0 :: "pyfloat \<Rightarrow> bool" where
  \<comment> \<open>\<^verbatim>\<open>x > 0\<close>\<close>
  "fgt0 (Fin q) = (0 < q)"
| "fgt0 PosInf = True"
| "fgt0 x = False"

fun fnonzero :: "pyfloat \<Rightarrow> bool" where
  \<comment> \<open>truth value of a float\<close>
  "fnonzero (Fin q) = (q \<noteq> 0)"
| "fnonzero NegZero = False"
| "fnonzero x = True"

fun feq :: "pyfloat \<Rightarrow> pyfloat \<Rightarrow> bool" where
  \<comment> \<open>\<^verbatim>\<open>x == y\<close> on numbers: \<^verbatim>\<open>nan\<close> equals nothing, the two zeros are equal\<close>
  "feq NaN y = False"
| "feq x NaN = False"
| "feq NegZero y = (y = NegZero \<or> y = Fin 0)"
| "feq x NegZero = (x = Fin 0)"
| "feq x y = (x = y)"

subsection \<open>Strings\<close>

definition is_ascii_digit :: "char \<Rightarrow> bool" where
  "is_ascii_digit c = (c \<in> set ''0123456789'')"

definition digit_val :: "char \<Rightarrow> int" where
  "digit_val c = int (of_char c) - 48"

definition char_isdigit :: "char \<Rightarrow> bool" where
  \<comment> \<open>\<^verbatim>\<open>str.isdigit\<close> on one character, among the code points 0 to 255: the ASCII
      digits and the superscripts U+00B2, U+00B3, U+00B9\<close>
  "char_isdigit c = (is_ascii_digit c \<or> (of_char c :: nat) \<in> set [178, 179, 185])"

definition str_isdigit :: "string \<Rightarrow> bool" where
  \<comment> \<open>\<^verbatim>\<open>s.isdigit()\<close>: at least one character, all of them digits\<close>
  "str_isdigit s = (s \<noteq> [] \<and> list_all char_isdigit s)"

definition replace_plus :: "string \<Rightarrow> string" where
  \<comment> \<open>\<^verbatim>\<open>s.replace("+", "")\<close>: every occurrence is removed\<close>
  "replace_plus s = filter (\<lambda>c. c \<noteq> CHR ''+'') s"

definition replace_dot1 :: "string \<Rightarrow> string" where
  \<comment> \<open>\<^verbatim>\<open>s.replace('.', '', 1)\<close>: the first occurrence is removed\<close>
  "replace_dot1 s = remove1 (CHR ''.'') s"

subsection \<open>\<^verbatim>\<open>float(s)\<close> on a string\<close>

definition float_space :: "char \<Rightarrow> bool" where
  \<comment> \<open>the characters \<^verbatim>\<open>float\<close> strips at both ends: tab, LF, VT, FF, CR, space,
      and U+0085, U+00A0\<close>
  "float_space c = ((of_char c :: nat) \<in> set [9, 10, 11, 12, 13, 32, 133, 160])"

definition strip_space :: "string \<Rightarrow> string" where
  "strip_space s = rev (dropWhile float_space (rev (dropWhile float_space s)))"

fun drop_underscores :: "char \<Rightarrow> string \<Rightarrow> string option" where
  \<comment> \<open>an underscore is allowed only between two ASCII digits; the first argument is the
      previous character\<close>
  "drop_underscores prev [] = (if prev = CHR ''_'' then None else Some [])"
| "drop_underscores prev (c # cs) =
     (if c = CHR ''_'' then
        (if is_ascii_digit prev then drop_underscores c cs else None)
      else if prev = CHR ''_'' \<and> \<not> is_ascii_digit c then None
      else map_option ((#) c) (drop_underscores c cs))"

definition digits_val :: "string \<Rightarrow> int" where
  "digits_val ds = foldl (\<lambda>a c. 10 * a + digit_val c) 0 ds"

definition ascii_lower :: "char \<Rightarrow> char" where
  "ascii_lower c =
     (let n = (of_char c :: nat) in if 65 \<le> n \<and> n \<le> 90 then char_of (n + 32) else c)"

definition split_sign :: "string \<Rightarrow> bool \<times> string" where
  \<comment> \<open>an optional sign: (negative, rest)\<close>
  "split_sign s =
     (case s of
        c # cs \<Rightarrow> if c = CHR ''-'' then (True, cs) else if c = CHR ''+'' then (False, cs)
                  else (False, s)
      | [] \<Rightarrow> (False, s))"

definition parse_exponent :: "string \<Rightarrow> int option" where
  \<comment> \<open>what follows the mantissa: nothing, or \<^verbatim>\<open>e\<close>/\<^verbatim>\<open>E\<close>, an optional sign and at
      least one digit, up to the end of the string\<close>
  "parse_exponent s =
     (case s of
        [] \<Rightarrow> Some 0
      | c # cs \<Rightarrow>
          if c = CHR ''e'' \<or> c = CHR ''E'' then
            (case split_sign cs of (neg, ds) \<Rightarrow>
               if ds \<noteq> [] \<and> list_all is_ascii_digit ds
               then Some (if neg then - digits_val ds else digits_val ds) else None)
          else None)"

definition parse_decimal :: "string \<Rightarrow> rat option" where
  \<comment> \<open>digits, an optional point and digits (at least one digit in all), an optional
      exponent\<close>
  "parse_decimal s =
     (let ip = takeWhile is_ascii_digit s; r1 = dropWhile is_ascii_digit s;
          r2 = (case r1 of c # cs \<Rightarrow> if c = CHR ''.'' then cs else r1 | [] \<Rightarrow> r1);
          fp = (if r2 = r1 then [] else takeWhile is_ascii_digit r2);
          r3 = (if r2 = r1 then r1 else dropWhile is_ascii_digit r2)
      in if ip @ fp = [] then None
         else (case parse_exponent r3 of
                 None \<Rightarrow> None
               | Some e \<Rightarrow> Some (of_int (digits_val (ip @ fp)) * pow10 (e - int (length fp)))))"

definition float_of_string :: "string \<Rightarrow> pyfloat option" where
  "float_of_string s =
     (case drop_underscores (CHR 0x00) (strip_space s) of
        None \<Rightarrow> None
      | Some t \<Rightarrow>
          (case split_sign t of (neg, u) \<Rightarrow>
             let l = map ascii_lower u in
             if l = ''inf'' \<or> l = ''infinity'' then Some (if neg then NegInf else PosInf)
             else if l = ''nan'' then Some NaN
             else (case parse_decimal u of
                     None \<Rightarrow> None
                   | Some q \<Rightarrow>
                       Some (if q = 0 then (if neg then NegZero else Fin 0)
                             else round_double (if neg then - q else q)))))"

subsection \<open>Built-in operations on values\<close>

definition ebind :: "pyerr + 'a \<Rightarrow> ('a \<Rightarrow> pyerr + 'b) \<Rightarrow> pyerr + 'b" where
  \<comment> \<open>sequencing: an exception raised by the first computation skips the second\<close>
  "ebind m f = (case m of Inl e \<Rightarrow> Inl e | Inr v \<Rightarrow> f v)"

fun py_truthy :: "pyval \<Rightarrow> bool" where
  "py_truthy PNone = False"
| "py_truthy (PBool b) = b"
| "py_truthy (PInt n) = (n \<noteq> 0)"
| "py_truthy (PFloat f) = fnonzero f"
| "py_truthy (PStr s) = (s \<noteq> [])"
| "py_truthy (PList xs) = (xs \<noteq> [])"
| "py_truthy (PDict al) = (al \<noteq> [])"

definition dict_get :: "pydict \<Rightarrow> string \<Rightarrow> pyval \<Rightarrow> pyval" where
  \<comment> \<open>\<^verbatim>\<open>d.get(k, default)\<close> on a dictionary\<close>
  "dict_get d k dflt = (case map_of d k of None \<Rightarrow> dflt | Some v \<Rightarrow> v)"

definition py_get :: "pyval \<Rightarrow> string \<Rightarrow> pyval \<Rightarrow> pyerr + pyval" where
  \<comment> \<open>\<^verbatim>\<open>x.get(k, default)\<close> on any value: only a dictionary has the method\<close>
  "py_get x k dflt = (case x of PDict d \<Rightarrow> Inr (dict_get d k dflt) | _ \<Rightarrow> Inl AttributeError)"

definition py_replace_plus :: "pyval \<Rightarrow> pyerr + pyval" where
  \<comment> \<open>\<^verbatim>\<open>x.replace("+", "")\<close>\<close>
  "py_replace_plus x = (case x of PStr s \<Rightarrow> Inr (PStr (replace_plus s)) | _ \<Rightarrow> Inl AttributeError)"

definition float_of_int :: "int \<Rightarrow> pyerr + pyfloat" where
  \<comment> \<open>\<^verbatim>\<open>float(n)\<close>: correctly rounded, \<^verbatim>\<open>OverflowError\<close> beyond the finite range\<close>
  "float_of_int n =
     (let f = round_double (of_int n)
      in if f = PosInf \<or> f = NegInf then Inl OverflowError else Inr f)"

definition py_float :: "pyval \<Rightarrow> pyerr + pyfloat" where
  \<comment> \<open>\<^verbatim>\<open>float(x)\<close>\<close>
  "py_float x =
     (case x of
        PStr s \<Rightarrow> (case float_of_string s of None \<Rightarrow> Inl ValueError | Some f \<Rightarrow> Inr f)
      | PInt n \<Rightarrow> float_of_int n
      | PBool b \<Rightarrow> Inr (Fin (if b then 1 else 0))
      | PFloat f \<Rightarrow> Inr f
      | _ \<Rightarrow> Inl TypeError)"

definition py_last :: "pyval \<Rightarrow> pyerr + pyval" where
  \<comment> \<open>\<^verbatim>\<open>x[-1]\<close>: the last element of a list, the last character of a string;
      a dictionary with string keys has no key \<^verbatim>\<open>-1\<close>; other values are not
      subscriptable\<close>
  "py_last x =
     (case x of
        PList xs \<Rightarrow> if xs = [] then Inl IndexError else Inr (last xs)
      | PStr s \<Rightarrow> if s = [] then Inl IndexError else Inr (PStr [last s])
      | PDict d \<Rightarrow> Inl KeyError
      | _ \<Rightarrow> Inl TypeError)"

definition py_iter :: "pyval \<Rightarrow> pyerr + pyval list" where
  \<comment> \<open>the values a \<^verbatim>\<open>for\<close> loop over \<open>x\<close> visits: the elements of a list, the
      characters of a string, the keys of a dictionary; other values are not iterable\<close>
  "py_iter x =
     (case x of
        PList xs \<Rightarrow> Inr xs
      | PStr s \<Rightarrow> Inr (map (\<lambda>c. PStr [c]) s)
      | PDict d \<Rightarrow> Inr (map (\<lambda>kv. PStr (fst kv)) d)
      | _ \<Rightarrow> Inl TypeError)"

definition opt_float :: "pyfloat option \<Rightarrow> pyval" where
  "opt_float x = (case x of None \<Rightarrow> PNone | Some f \<Rightarrow> PFloat f)"

fun num_of :: "pyval \<Rightarrow> pyfloat option" where
  \<comment> \<open>the number a value is compared as (an integer by its exact value)\<close>
  "num_of (PBool b) = Some (Fin (if b then 1 else 0))"
| "num_of (PInt n) = Some (Fin (of_int n))"
| "num_of (PFloat f) = Some f"
| "num_of x = None"

fun py_eq :: "pyval \<Rightarrow> pyval \<Rightarrow> bool"
  and py_eq_list :: "pyval list \<Rightarrow> pyval list \<Rightarrow> bool"
  and py_eq_items :: "(string \<times> pyval) list \<Rightarrow> (string \<times> pyval) list \<Rightarrow> bool" where
  \<comment> \<open>\<^verbatim>\<open>x == y\<close> on decoded values: numbers by value, strings by content, lists
      elementwise, dictionaries by keys and values\<close>
  "py_eq PNone y = (y = PNone)"
| "py_eq (PStr s) y = (y = PStr s)"
| "py_eq (PBool b) y = (case num_of y of None \<Rightarrow> False | Some g \<Rightarrow> feq (Fin (if b then 1 else 0)) g)"
| "py_eq (PInt n) y = (case num_of y of None \<Rightarrow> False | Some g \<Rightarrow> feq (Fin (of_int n)) g)"
| "py_eq (PFloat f) y = (case num_of y of None \<Rightarrow> False | Some g \<Rightarrow> feq f g)"
| "py_eq (PList xs) y = (case y of PList ys \<Rightarrow> py_eq_list xs ys | _ \<Rightarrow> False)"
| "py_eq (PDict d) y =
     (case y of PDict d' \<Rightarrow> length d = length d' \<and> py_eq_items d d' | _ \<Rightarrow> False)"
| "py_eq_list [] ys = (ys = [])"
| "py_eq_list (x # xs) ys =
     (case ys of [] \<Rightarrow> False | y # ys' \<Rightarrow> py_eq x y \<and> py_eq_list xs ys')"
| "py_eq_items [] d' = True"
| "py_eq_items (kv # d) d' =
     ((case map_of d' (fst kv) of None \<Rightarrow> False | Some w \<Rightarrow> py_eq (snd kv) w)
      \<and> py_eq_items d d')"

definition ascii_upper :: "char \<Rightarrow> char" where
  "ascii_upper c =
     (let n = (of_char c :: nat) in if 97 \<le> n \<and> n \<le> 122 then char_of (n - 32) else c)"

definition str_upper :: "string \<Rightarrow> string" where
  \<comment> \<open>\<^verbatim>\<open>s.upper()\<close>, for a category tag of ASCII characters\<close>
  "str_upper s = map ascii_upper s"

definition str_capitalize :: "string \<Rightarrow> string" where
  \<comment> \<open>\<^verbatim>\<open>s.capitalize()\<close>, for a category tag of ASCII characters\<close>
  "str_capitalize s = (case s of [] \<Rightarrow> [] | c # cs \<Rightarrow> ascii_upper c # map ascii_lower cs)"

section \<open>The state reducer: one branch per category\<close>

text \<open>
  The constructor \<^verbatim>\<open>KseniaSensorEntity.__init__\<close> and the refresh
  \<^verbatim>\<open>async_update\<close> hold the same five branches; only the messages logged by the
  domus and partitions branches differ. A branch is modelled once, with the flag
  \<open>upd\<close> (\<open>False\<close> in the constructor, \<open>True\<close> in the refresh) choosing the message.
  A branch yields the new \<^verbatim>\<open>_state\<close>, the new \<^verbatim>\<open>_attributes\<close> and the errors
  logged, or the exception that escapes it.
\<close>

type_synonym reduction = "pyval \<times> pydict \<times> logentry list"

definition parse_temp :: "pyval \<Rightarrow> string \<Rightarrow> pyerr + pyfloat option" where
  \<comment> \<open>\<^verbatim>\<open>float(d.get(k, "0").replace("+", "")) if d.get(k) else None\<close>\<close>
  "parse_temp d k =
     ebind (py_get d k PNone) (\<lambda>c.
       if py_truthy c then
         ebind (py_get d k (PStr ''0'')) (\<lambda>v.
         ebind (py_replace_plus v) (\<lambda>s.
         ebind (py_float s) (\<lambda>f. Inr (Some f))))
       else Inr None)"

definition reduce_system :: "pydict \<Rightarrow> reduction" where
  "reduce_system sensor_data =
     (let temp_data = dict_get sensor_data ''TEMP'' (PDict [])
      in case ebind (parse_temp temp_data ''IN'') (\<lambda>temp_in.
              ebind (parse_temp temp_data ''OUT'') (\<lambda>temp_out. Inr (temp_in, temp_out))) of
           Inr (temp_in, temp_out) \<Rightarrow>
             (dict_get sensor_data ''ARM'' (PStr ''unknown''),
              [(''temp_in'', opt_float temp_in), (''temp_out'', opt_float temp_out)],
              [])
         | Inl e \<Rightarrow>
             (dict_get sensor_data ''ARM'' (PStr ''unknown''),
              [(''temp_in'', PNone), (''temp_out'', PNone)],
              [(''Error converting temperature: %s'', e)]))"

definition parse_power :: "pyval \<Rightarrow> pyerr + pyfloat option" where
  \<comment> \<open>\<^verbatim>\<open>float(p) if p and p.replace('.', '', 1).isdigit() else None\<close>\<close>
  "parse_power p =
     (if py_truthy p then
        (case p of
           PStr s \<Rightarrow>
             if str_isdigit (replace_dot1 s) then ebind (py_float p) (\<lambda>f. Inr (Some f))
             else Inr None
         | _ \<Rightarrow> Inl AttributeError)
      else Inr None)"

definition reduce_powerlines :: "pydict \<Rightarrow> reduction" where
  "reduce_powerlines sensor_data =
     (let pcons = dict_get sensor_data ''PCONS'' PNone;
          (pcons_val, log1) =
            (case parse_power pcons of
               Inr v \<Rightarrow> (v, [])
             | Inl e \<Rightarrow> (None, [(''Error converting PCONS: %s'', e)]));
          pprod = dict_get sensor_data ''PPROD'' PNone;
          (pprod_val, log2) =
            (case parse_power pprod of
               Inr v \<Rightarrow> (v, [])
             | Inl e \<Rightarrow> (None, [(''Error converting PPROD: %s'', e)]))
      in ((case pcons_val of
             Some f \<Rightarrow> PFloat f
           | None \<Rightarrow> dict_get sensor_data ''STATUS'' (PStr ''unknown'')),
          [(''Consumo'', opt_float pcons_val),
           (''Produzione'', opt_float pprod_val),
           (''Status'', dict_get sensor_data ''STATUS'' (PStr ''unknown''))],
          log1 @ log2))"

definition parse_humidity :: "pydict \<Rightarrow> pyerr + pyfloat option" where
  \<comment> \<open>\<^verbatim>\<open>float(sensor_data.get("H", "0")) if sensor_data.get("H") else None\<close>\<close>
  "parse_humidity sensor_data =
     (if py_truthy (dict_get sensor_data ''H'' PNone) then
        ebind (py_float (dict_get sensor_data ''H'' (PStr ''0''))) (\<lambda>f. Inr (Some f))
      else Inr None)"

definition reduce_domus :: "bool \<Rightarrow> pydict \<Rightarrow> reduction" where
  "reduce_domus upd sensor_data =
     (let (temperature, log1) =
            (case parse_temp (PDict sensor_data) ''T'' of
               Inr v \<Rightarrow> (v, [])
             | Inl e \<Rightarrow>
                 (None,
                  [(if upd then ''Error converting temperature in domus sensor update: %s''
                    else ''Error converting temperature in domus sensor: %s'', e)]));
          (humidity, log2) =
            (case parse_humidity sensor_data of
               Inr v \<Rightarrow> (v, [])
             | Inl e \<Rightarrow>
                 (None,
                  [(if upd then ''Error converting humidity in domus sensor update: %s''
                    else ''Error converting humidity in domus sensor: %s'', e)]))
      in ((case temperature of
             Some f \<Rightarrow> PFloat f
           | None \<Rightarrow> dict_get sensor_data ''STA'' (PStr ''unknown'')),
          AList.update ''humidity'' (opt_float humidity)
            (AList.update ''temperature'' (opt_float temperature) sensor_data),
          log1 @ log2))"

fun sum_enc :: "bool \<Rightarrow> pyval list \<Rightarrow> pyfloat \<Rightarrow> logentry list \<Rightarrow> pyfloat \<times> logentry list" where
  \<comment> \<open>the loop \<^verbatim>\<open>for record in vals\<close>: a record whose \<^verbatim>\<open>ENC\<close> does not convert is
      logged and adds nothing\<close>
  "sum_enc upd [] total_consumption lg = (total_consumption, lg)"
| "sum_enc upd (record # vals) total_consumption lg =
     (case ebind (py_get record ''ENC'' (PInt 0)) py_float of
        Inr f \<Rightarrow> sum_enc upd vals (fadd total_consumption f) lg
      | Inl e \<Rightarrow>
          sum_enc upd vals total_consumption
            (lg @ [(if upd then ''Error converting ENC in partitions sensor update: %s''
                    else ''Error converting total consumption: %s'', e)]))"

definition reduce_partitions :: "bool \<Rightarrow> pydict \<Rightarrow> pyerr + reduction" where
  "reduce_partitions upd sensor_data =
     (let stat = dict_get sensor_data ''STAT'' (PList [])
      in ebind
           (if py_truthy stat then
              ebind (py_last stat) (\<lambda>latest_stat.
              ebind (py_get latest_stat ''VAL'' (PList [])) (\<lambda>vals.
              ebind (py_iter vals) (\<lambda>records. Inr (sum_enc upd records (Fin 0) []))))
            else Inr (Fin 0, []))
           (\<lambda>(total_consumption, lg).
              Inr (if fgt0 total_consumption then PFloat total_consumption
                   else dict_get sensor_data ''STA'' (PStr ''unknown''),
                   AList.update ''total_consumption'' (PFloat total_consumption) sensor_data,
                   lg)))"

definition reduce_other :: "pydict \<Rightarrow> reduction" where
  "reduce_other sensor_data = (dict_get sensor_data ''STA'' (PStr ''unknown''), sensor_data, [])"

definition reduce :: "bool \<Rightarrow> string \<Rightarrow> pydict \<Rightarrow> pyerr + reduction" where
  \<comment> \<open>the \<^verbatim>\<open>if\<close>/\<^verbatim>\<open>elif\<close> chain on the category tag, in the source's order\<close>
  "reduce upd sensor_type sensor_data =
     (if sensor_type = ''system'' then Inr (reduce_system sensor_data)
      else if sensor_type = ''powerlines'' then Inr (reduce_powerlines sensor_data)
      else if sensor_type = ''domus'' then Inr (reduce_domus upd sensor_data)
      else if sensor_type = ''partitions'' then reduce_partitions upd sensor_data
      else Inr (reduce_other sensor_data))"

section \<open>Entities, the constructor, the refresh and the setup\<close>

text \<open>
  The fields \<^verbatim>\<open>_id\<close>, \<^verbatim>\<open>_sensor_type\<close>, \<^verbatim>\<open>_name\<close>, \<^verbatim>\<open>_state\<close> and
  \<^verbatim>\<open>_attributes\<close> of a \<^verbatim>\<open>KseniaSensorEntity\<close>.
\<close>

record entity =
  ent_id :: pyval
  ent_sensor_type :: string
  ent_name :: pyval
  ent_state :: pyval
  ent_attributes :: pydict

text \<open>
  The session client (\<^verbatim>\<open>ws_manager\<close>) is not part of this file. Each of its three
  fetches returns a sequence of records or raises.
\<close>

record ws_manager =
  getDom :: "pyerr + pydict list"
  getSensor :: "string \<Rightarrow> pyerr + pydict list"
  getSystem :: "pyerr + pydict list"

definition py_or :: "pyval \<Rightarrow> pyval \<Rightarrow> pyval" where
  \<comment> \<open>\<^verbatim>\<open>a or b\<close>\<close>
  "py_or a b = (if py_truthy a then a else b)"

text \<open>
  \<open>fmt\<close> stands for the formatting of a value inside an f-string (\<^verbatim>\<open>format(v, "")\<close>),
  which returns a string unchanged.
\<close>

definition display_name :: "(pyval \<Rightarrow> string) \<Rightarrow> pydict \<Rightarrow> string \<Rightarrow> pyval \<Rightarrow> pyval" where
  "display_name fmt sensor_data sensor_type i =
     py_or (dict_get sensor_data ''NM'' PNone)
       (py_or (dict_get sensor_data ''LBL'' PNone)
          (py_or (dict_get sensor_data ''DES'' PNone)
             (PStr (''Sensor '' @ str_capitalize sensor_type @ '' '' @ fmt i))))"

definition init :: "(pyval \<Rightarrow> string) \<Rightarrow> pydict \<Rightarrow> string \<Rightarrow> pyerr + entity \<times> logentry list" where
  \<comment> \<open>\<^verbatim>\<open>KseniaSensorEntity.__init__\<close>\<close>
  "init fmt sensor_data sensor_type =
     (case map_of sensor_data ''ID'' of
        None \<Rightarrow> Inl KeyError
      | Some i \<Rightarrow>
          ebind (reduce False sensor_type sensor_data) (\<lambda>(st, attrs, lg).
            Inr (\<lparr>ent_id = i, ent_sensor_type = sensor_type,
                  ent_name = display_name fmt sensor_data sensor_type i,
                  ent_state = st, ent_attributes = attrs\<rparr>, lg)))"

definition unique_id :: "(pyval \<Rightarrow> string) \<Rightarrow> entity \<Rightarrow> string" where
  \<comment> \<open>\<^verbatim>\<open>f"{self._sensor_type}_{self._id}"\<close>\<close>
  "unique_id fmt e = ent_sensor_type e @ ''_'' @ fmt (ent_id e)"

fun find_by_id :: "pyval \<Rightarrow> pydict list \<Rightarrow> pyerr + pydict option" where
  \<comment> \<open>the scan \<^verbatim>\<open>for sensor in sensors: if sensor["ID"] == self._id: ... break\<close>:
      the record the body runs on, if any\<close>
  "find_by_id i [] = Inr None"
| "find_by_id i (sensor # sensors) =
     (case map_of sensor ''ID'' of
        None \<Rightarrow> Inl KeyError
      | Some v \<Rightarrow> if py_eq v i then Inr (Some sensor) else find_by_id i sensors)"

definition fetch_for :: "ws_manager \<Rightarrow> string \<Rightarrow> pyerr + pydict list" where
  \<comment> \<open>the fetch each branch of \<^verbatim>\<open>async_update\<close> starts with\<close>
  "fetch_for ws t =
     (if t = ''system'' then getSystem ws
      else if t = ''powerlines'' then getSensor ws ''POWER_LINES''
      else if t = ''domus'' then getDom ws
      else if t = ''partitions'' then getSensor ws ''PARTITIONS''
      else getSensor ws (str_upper t))"

definition async_update :: "ws_manager \<Rightarrow> entity \<Rightarrow> entity \<times> logentry list \<times> pyerr option" where
  \<comment> \<open>\<^verbatim>\<open>KseniaSensorEntity.async_update\<close>: the entity after the call, the errors
      logged and the exception raised, if any. Every branch assigns \<^verbatim>\<open>_state\<close> and
      \<^verbatim>\<open>_attributes\<close> last, so an exception leaves the entity as it was.\<close>
  "async_update ws e =
     (case fetch_for ws (ent_sensor_type e) of
        Inl err \<Rightarrow> (e, [], Some err)
      | Inr sensors \<Rightarrow>
          (case find_by_id (ent_id e) sensors of
             Inl err \<Rightarrow> (e, [], Some err)
           | Inr None \<Rightarrow> (e, [], None)
           | Inr (Some sensor) \<Rightarrow>
               (case reduce True (ent_sensor_type e) sensor of
                  Inl err \<Rightarrow> (e, [], Some err)
                | Inr (st, attrs, lg) \<Rightarrow> (e\<lparr>ent_state := st, ent_attributes := attrs\<rparr>, lg, None))))"

fun refreshes :: "ws_manager list \<Rightarrow> entity \<Rightarrow> entity" where
  \<comment> \<open>successive refreshes, one per state of the session client\<close>
  "refreshes [] e = e"
| "refreshes (ws # wss) e = refreshes wss (fst (async_update ws e))"



section \<open>The reducers as the specification words them\<close>

text \<open>
  The numeric acceptance of the powerlines fields, in the words of the specification:
  at most one point, every other character a digit, and at least one digit.
\<close>

definition numeric_text :: "string \<Rightarrow> bool" where
  "numeric_text s =
     (count_list s (CHR ''.'') \<le> 1 \<and> list_all (\<lambda>c. c = CHR ''.'' \<or> char_isdigit c) s
      \<and> list_ex (\<lambda>c. c \<noteq> CHR ''.'') s)"

definition power_value :: "pyval \<Rightarrow> pyfloat option" where
  \<comment> \<open>the value of \<^verbatim>\<open>PCONS\<close> or \<^verbatim>\<open>PPROD\<close>: the float of an accepted string, else null\<close>
  "power_value p =
     (case p of PStr s \<Rightarrow> if numeric_text s then float_of_string s else None | _ \<Rightarrow> None)"

text \<open>
  The conversion of one temperature field of the system branch (\<^verbatim>\<open>TEMP.IN\<close>,
  \<^verbatim>\<open>TEMP.OUT\<close>), given what the mapping holds for it: an absent field and a field
  whose value is false (null, the empty string, zero, an empty container) are null; a
  non-empty string is converted after every \<^verbatim>\<open>+\<close> in it has been removed, and fails
  with \<^verbatim>\<open>ValueError\<close> when what is left does not convert; any other value has no
  \<^verbatim>\<open>replace\<close> and fails with \<^verbatim>\<open>AttributeError\<close>.
\<close>

definition temp_value :: "pyval option \<Rightarrow> pyerr + pyfloat option" where
  "temp_value field =
     (case field of
        None \<Rightarrow> Inr None
      | Some v \<Rightarrow>
          if \<not> py_truthy v then Inr None
          else (case v of
                  PStr s \<Rightarrow>
                    (case float_of_string (filter (\<lambda>c. c \<noteq> CHR ''+'') s) of
                       None \<Rightarrow> Inl ValueError
                     | Some f \<Rightarrow> Inr (Some f))
                | _ \<Rightarrow> Inl AttributeError))"

text \<open>
  The total consumption of a partition, in the words of the specification: the sum,
  from 0.0 and in the order of the array, of the \<^verbatim>\<open>ENC\<close> of every entry of \<^verbatim>\<open>VAL\<close>.
  An entry without \<^verbatim>\<open>ENC\<close> counts as \<^verbatim>\<open>float(0)\<close>; an entry whose \<^verbatim>\<open>ENC\<close> does
  not convert has no value to add.
\<close>

definition enc_value :: "pyval \<Rightarrow> pyfloat option" where
  "enc_value record =
     (case ebind (py_get record ''ENC'' (PInt 0)) py_float of
        Inr f \<Rightarrow> Some f | Inl e \<Rightarrow> None)"

definition enc_total :: "pyval list \<Rightarrow> pyfloat" where
  "enc_total vals = foldl fadd (Fin 0) (List.map_filter enc_value vals)"

section \<open>The refresh: lookup by identifier\<close>

lemma find_by_id_no_match:
  "\<forall>r \<in> set sensors. \<forall>v. map_of r ''ID'' = Some v \<longrightarrow> \<not> py_eq v i \<Longrightarrow>
   find_by_id i sensors = Inr None \<or> find_by_id i sensors = Inl KeyError"
  by (induction sensors) (auto split: option.splits)

lemma find_by_id_all_ids:
  "\<forall>r \<in> set sensors. \<exists>v. map_of r ''ID'' = Some v \<and> \<not> py_eq v i \<Longrightarrow>
   find_by_id i sensors = Inr None"
  by (induction sensors) (auto split: option.splits)

lemma find_by_id_first:
  "\<forall>r \<in> set pre. \<exists>v. map_of r ''ID'' = Some v \<and> \<not> py_eq v i \<Longrightarrow>
   map_of r ''ID'' = Some v \<Longrightarrow> py_eq v i \<Longrightarrow>
   find_by_id i (pre @ r # post) = Inr (Some r)"
  by (induction pre) (auto split: option.splits)

text \<open>
  Claim C7. When the snapshot fetched by a refresh holds no record whose \<^verbatim>\<open>ID\<close> equals
  the entity's, the entity after the refresh is the entity before it (state and
  attributes included); when moreover every record of the snapshot carries an
  \<^verbatim>\<open>ID\<close>, nothing is raised and nothing is logged.
\<close>

theorem refresh_without_match_is_noop:
  assumes "fetch_for ws (ent_sensor_type e) = Inr sensors"
    and "\<forall>r \<in> set sensors. \<forall>v. map_of r ''ID'' = Some v \<longrightarrow> \<not> py_eq v (ent_id e)"
  shows "fst (async_update ws e) = e \<and>
         ((\<forall>r \<in> set sensors. map_of r ''ID'' \<noteq> None) \<longrightarrow> async_update ws e = (e, [], None))"
proof
  from find_by_id_no_match [OF assms(2)]
  show "fst (async_update ws e) = e"
    using assms(1) by (auto simp: async_update_def)
  show "(\<forall>r \<in> set sensors. map_of r ''ID'' \<noteq> None) \<longrightarrow> async_update ws e = (e, [], None)"
  proof
    assume a: "\<forall>r \<in> set sensors. map_of r ''ID'' \<noteq> None"
    have "\<forall>r \<in> set sensors. \<exists>v. map_of r ''ID'' = Some v \<and> \<not> py_eq v (ent_id e)"
      using a assms(2) by fastforce
    from find_by_id_all_ids [OF this] show "async_update ws e = (e, [], None)"
      using assms(1) by (simp add: async_update_def)
  qed
qed

theorem refresh_without_match_is_noop_witness:
  "async_update
     \<lparr>getDom = Inr [], getSensor = (\<lambda>c. Inr [[(''ID'', PStr ''2''), (''STA'', PStr ''A'')]]),
      getSystem = Inr []\<rparr>
     \<lparr>ent_id = PStr ''1'', ent_sensor_type = ''zones'', ent_name = PStr ''Z'',
      ent_state = PStr ''R'', ent_attributes = [(''ID'', PStr ''1'')]\<rparr>
   = (\<lparr>ent_id = PStr ''1'', ent_sensor_type = ''zones'', ent_name = PStr ''Z'',
       ent_state = PStr ''R'', ent_attributes = [(''ID'', PStr ''1'')]\<rparr>, [], None)"
proof -
  let ?ws = "\<lparr>getDom = Inr [], getSensor = (\<lambda>c. Inr [[(''ID'', PStr ''2''), (''STA'', PStr ''A'')]]),
      getSystem = Inr []\<rparr>"
  let ?e = "\<lparr>ent_id = PStr ''1'', ent_sensor_type = ''zones'', ent_name = PStr ''Z'',
      ent_state = PStr ''R'', ent_attributes = [(''ID'', PStr ''1'')]\<rparr>"
  let ?s = "[[(''ID'', PStr ''2''), (''STA'', PStr ''A'')]]"
  have h1: "fetch_for ?ws (ent_sensor_type ?e) = Inr ?s"
    by (simp add: fetch_for_def)
  have h2: "\<forall>r \<in> set ?s. \<forall>v. map_of r ''ID'' = Some v \<longrightarrow> \<not> py_eq v (ent_id ?e)"
    by simp
  have h3: "\<forall>r \<in> set ?s. map_of r ''ID'' \<noteq> None"
    by simp
  from refresh_without_match_is_noop [OF h1 h2] h3 show ?thesis
    by blast
qed

text \<open>
  Claim C10. When the snapshot holds several records whose \<^verbatim>\<open>ID\<close> equals the
  entity's, the refresh runs the reducer on the first of them in the order of the
  snapshot; what follows that record has no influence on the result.
\<close>

theorem refresh_uses_first_match:
  assumes "fetch_for ws (ent_sensor_type e) = Inr (pre @ r # post)"
    and "\<forall>p \<in> set pre. \<exists>v. map_of p ''ID'' = Some v \<and> \<not> py_eq v (ent_id e)"
    and "map_of r ''ID'' = Some v" and "py_eq v (ent_id e)"
  shows "async_update ws e =
     (case reduce True (ent_sensor_type e) r of
        Inl err \<Rightarrow> (e, [], Some err)
      | Inr (st, attrs, lg) \<Rightarrow> (e\<lparr>ent_state := st, ent_attributes := attrs\<rparr>, lg, None))"
  using find_by_id_first [OF assms(2,3,4)] assms(1) by (simp add: async_update_def)

theorem refresh_uses_first_match_witness:
  "async_update
     \<lparr>getDom = Inr [],
      getSensor = (\<lambda>c. Inr [[(''ID'', PStr ''2''), (''STA'', PStr ''A'')],
                            [(''ID'', PStr ''1''), (''STA'', PStr ''B'')],
                            [(''ID'', PStr ''1''), (''STA'', PStr ''C'')]]),
      getSystem = Inr []\<rparr>
     \<lparr>ent_id = PStr ''1'', ent_sensor_type = ''zones'', ent_name = PStr ''Z'',
      ent_state = PStr ''R'', ent_attributes = [(''ID'', PStr ''1'')]\<rparr>
   = (\<lparr>ent_id = PStr ''1'', ent_sensor_type = ''zones'', ent_name = PStr ''Z'',
       ent_state = PStr ''B'',
       ent_attributes = [(''ID'', PStr ''1''), (''STA'', PStr ''B'')]\<rparr>, [], None)"
proof -
  let ?pre = "[[(''ID'', PStr ''2''), (''STA'', PStr ''A'')]]"
  let ?r = "[(''ID'', PStr ''1''), (''STA'', PStr ''B'')]"
  let ?post = "[[(''ID'', PStr ''1''), (''STA'', PStr ''C'')]]"
  let ?ws = "\<lparr>getDom = Inr [], getSensor = (\<lambda>c. Inr (?pre @ ?r # ?post)), getSystem = Inr []\<rparr>"
  let ?e = "\<lparr>ent_id = PStr ''1'', ent_sensor_type = ''zones'', ent_name = PStr ''Z'',
      ent_state = PStr ''R'', ent_attributes = [(''ID'', PStr ''1'')]\<rparr>"
  have h1: "fetch_for ?ws (ent_sensor_type ?e) = Inr (?pre @ ?r # ?post)"
    by (simp add: fetch_for_def)
  have h2: "\<forall>p \<in> set ?pre. \<exists>v. map_of p ''ID'' = Some v \<and> \<not> py_eq v (ent_id ?e)"
    by simp
  have h3: "map_of ?r ''ID'' = Some (PStr ''1'')"
    by simp
  have h4: "py_eq (PStr ''1'') (ent_id ?e)"
    by simp
  have red: "reduce True (ent_sensor_type ?e) ?r = Inr (PStr ''B'', ?r, [])"
    by (simp add: reduce_def reduce_other_def dict_get_def)
  from refresh_uses_first_match [OF h1 h2 h3 h4] red show ?thesis
    by simp
qed

section \<open>The identity of an entity\<close>

lemma async_update_keeps_identity:
  "ent_id (fst (async_update ws e)) = ent_id e \<and>
   ent_sensor_type (fst (async_update ws e)) = ent_sensor_type e \<and>
   ent_name (fst (async_update ws e)) = ent_name e"
  by (auto simp: async_update_def split: sum.splits option.splits)

lemma refreshes_keep_identity:
  "ent_id (refreshes wss e) = ent_id e \<and> ent_sensor_type (refreshes wss e) = ent_sensor_type e"
  by (induction wss arbitrary: e) (simp_all add: async_update_keeps_identity)

lemma init_identity:
  "init fmt sd t = Inr (e, lg) \<Longrightarrow> ent_sensor_type e = t \<and> map_of sd ''ID'' = Some (ent_id e)"
  by (auto simp: init_def ebind_def split: option.splits sum.splits)

text \<open>
  Claim C9. The entity constructed from a record with category tag \<open>t\<close> keeps, through
  any sequence of refreshes, the \<^verbatim>\<open>_id\<close> of its record and the tag \<open>t\<close>, and its
  \<^verbatim>\<open>unique_id\<close> is the tag, an underscore and the formatted \<^verbatim>\<open>ID\<close> of the record
  (the \<^verbatim>\<open>ID\<close> itself when it is a string).
\<close>

theorem unique_id_stable:
  assumes "init fmt sensor_data t = Inr (e, lg)"
  shows "map_of sensor_data ''ID'' = Some (ent_id e) \<and>
         ent_id (refreshes wss e) = ent_id e \<and>
         ent_sensor_type (refreshes wss e) = t \<and>
         unique_id fmt (refreshes wss e) = t @ ''_'' @ fmt (ent_id e) \<and>
         (\<forall>i. ent_id e = PStr i \<and> fmt (PStr i) = i \<longrightarrow>
              unique_id fmt (refreshes wss e) = t @ ''_'' @ i)"
  using init_identity [OF assms] refreshes_keep_identity [of wss e]
  by (simp add: unique_id_def)

theorem unique_id_stable_witness:
  "unique_id (\<lambda>v. case v of PStr s \<Rightarrow> s | _ \<Rightarrow> [])
     (refreshes
        [\<lparr>getDom = Inr [], getSensor = (\<lambda>c. Inr [[(''ID'', PStr ''7''), (''STA'', PStr ''A'')]]),
          getSystem = Inr []\<rparr>]
        \<lparr>ent_id = PStr ''7'', ent_sensor_type = ''zones'', ent_name = PStr ''Sensor Zones 7'',
         ent_state = PStr ''R'',
         ent_attributes = [(''ID'', PStr ''7''), (''STA'', PStr ''R'')]\<rparr>)
   = ''zones_7''"
proof -
  let ?fmt = "\<lambda>v. case v of PStr s \<Rightarrow> s | _ \<Rightarrow> []"
  let ?sd = "[(''ID'', PStr ''7''), (''STA'', PStr ''R'')]"
  let ?e = "\<lparr>ent_id = PStr ''7'', ent_sensor_type = ''zones'', ent_name = PStr ''Sensor Zones 7'',
         ent_state = PStr ''R'', ent_attributes = ?sd\<rparr>"
  have cap: "str_capitalize ''zones'' = ''Zones''"
    by code_simp
  have h: "init ?fmt ?sd ''zones'' = Inr (?e, [])"
    by (simp add: init_def reduce_def reduce_other_def dict_get_def ebind_def
        display_name_def py_or_def cap)
  from unique_id_stable [OF h, where wss = "[\<lparr>getDom = Inr [],
      getSensor = (\<lambda>c. Inr [[(''ID'', PStr ''7''), (''STA'', PStr ''A'')]]), getSystem = Inr []\<rparr>]"]
  show ?thesis
    by simp
qed

section \<open>The numeric check of the powerlines branch\<close>

lemma dot_not_digit: "\<not> char_isdigit (CHR ''.'')"
  by (simp add: char_isdigit_def is_ascii_digit_def)

lemma all_digits_no_dot:
  "list_all char_isdigit s \<Longrightarrow> count_list s (CHR ''.'') = 0"
  by (induction s) (auto simp: dot_not_digit)

lemma all_digits_remove1:
  "list_all char_isdigit (remove1 (CHR ''.'') s) \<longleftrightarrow>
   count_list s (CHR ''.'') \<le> 1 \<and> list_all (\<lambda>c. c = CHR ''.'' \<or> char_isdigit c) s"
proof (induction s)
  case Nil
  show ?case by simp
next
  case (Cons c cs)
  show ?case
  proof (cases "c = CHR ''.''")
    case True
    have "list_all char_isdigit cs \<longleftrightarrow>
          count_list cs (CHR ''.'') = 0 \<and> list_all (\<lambda>c. c = CHR ''.'' \<or> char_isdigit c) cs"
      by (induction cs) (auto simp: dot_not_digit)
    with True show ?thesis by simp
  next
    case False
    with Cons show ?thesis by auto
  qed
qed

lemma remove1_nonempty:
  "remove1 (CHR ''.'') s \<noteq> [] \<longleftrightarrow> (s \<noteq> [] \<and> s \<noteq> [CHR ''.''])"
  by (cases s) auto

lemma check_is_numeric_text: "str_isdigit (replace_dot1 s) \<longleftrightarrow> numeric_text s"
proof -
  have a: "list_all char_isdigit (remove1 (CHR ''.'') s) \<Longrightarrow>
           (remove1 (CHR ''.'') s \<noteq> [] \<longleftrightarrow> list_ex (\<lambda>c. c \<noteq> CHR ''.'') s)"
  proof (induction s)
    case Nil
    show ?case by simp
  next
    case (Cons c cs)
    show ?case
    proof (cases "c = CHR ''.''")
      case True
      with Cons.prems have "list_all char_isdigit cs" by simp
      then have "cs \<noteq> [] \<longleftrightarrow> list_ex (\<lambda>c. c \<noteq> CHR ''.'') cs"
        by (cases cs) (auto simp: dot_not_digit)
      with True show ?thesis by simp
    next
      case False
      then show ?thesis by simp
    qed
  qed
  show ?thesis
    unfolding str_isdigit_def replace_dot1_def numeric_text_def
    using a all_digits_remove1 [of s] by blast
qed

lemma parse_power_value:
  "(case parse_power p of Inr v \<Rightarrow> v | Inl e \<Rightarrow> None) = power_value p"
  by (cases p)
     (auto simp: parse_power_def power_value_def check_is_numeric_text py_float_def ebind_def
        numeric_text_def split: option.splits)

subsection \<open>The values of \<^verbatim>\<open>PCONS\<close> and \<^verbatim>\<open>PPROD\<close>\<close>

lemma reduce_powerlines_spec:
  "fst (reduce_powerlines sd) =
     (case power_value (dict_get sd ''PCONS'' PNone) of
        Some f \<Rightarrow> PFloat f
      | None \<Rightarrow> dict_get sd ''STATUS'' (PStr ''unknown''))
   \<and> fst (snd (reduce_powerlines sd)) =
     [(''Consumo'', opt_float (power_value (dict_get sd ''PCONS'' PNone))),
      (''Produzione'', opt_float (power_value (dict_get sd ''PPROD'' PNone))),
      (''Status'', dict_get sd ''STATUS'' (PStr ''unknown''))]"
  unfolding reduce_powerlines_def Let_def
  using parse_power_value [of "dict_get sd ''PCONS'' PNone"]
        parse_power_value [of "dict_get sd ''PPROD'' PNone"]
  by (auto split: sum.splits option.splits)



lemma parse_power_example1: "parse_power (PStr ''12.5'') = Inr (Some (Fin (25 / 2)))"
  by code_simp

lemma parse_power_example2: "parse_power (PStr ''3'') = Inr (Some (Fin 3))"
  by code_simp

text \<open>
  Claim C6. In the powerlines branch the state is the value of \<^verbatim>\<open>PCONS\<close> when there is
  one and otherwise the \<^verbatim>\<open>STATUS\<close> field (\<^verbatim>\<open>"unknown"\<close> when absent); the attributes
  are \<^verbatim>\<open>Consumo\<close>, \<^verbatim>\<open>Produzione\<close> and \<^verbatim>\<open>Status\<close>, holding the value of \<^verbatim>\<open>PCONS\<close>, the
  value of \<^verbatim>\<open>PPROD\<close> and the \<^verbatim>\<open>STATUS\<close> field. With \<^verbatim>\<open>PCONS="12.5"\<close>,
  \<^verbatim>\<open>PPROD="3"\<close>, \<^verbatim>\<open>STATUS="on"\<close> the state is 12.5 and the attributes are 12.5, 3.0
  and \<^verbatim>\<open>"on"\<close>.
\<close>

theorem powerlines_state_and_attributes:
  "fst (reduce_powerlines sd) =
     (case power_value (dict_get sd ''PCONS'' PNone) of
        Some f \<Rightarrow> PFloat f
      | None \<Rightarrow> dict_get sd ''STATUS'' (PStr ''unknown''))
   \<and> fst (snd (reduce_powerlines sd)) =
     [(''Consumo'', opt_float (power_value (dict_get sd ''PCONS'' PNone))),
      (''Produzione'', opt_float (power_value (dict_get sd ''PPROD'' PNone))),
      (''Status'', dict_get sd ''STATUS'' (PStr ''unknown''))]
   \<and> (map_of sd ''PCONS'' = Some (PStr ''12.5'') \<and> map_of sd ''PPROD'' = Some (PStr ''3'')
        \<and> map_of sd ''STATUS'' = Some (PStr ''on'') \<longrightarrow>
      reduce_powerlines sd =
        (PFloat (Fin (25 / 2)),
         [(''Consumo'', PFloat (Fin (25 / 2))), (''Produzione'', PFloat (Fin 3)),
          (''Status'', PStr ''on'')],
         []))"
proof (intro conjI impI)
  show "fst (reduce_powerlines sd) =
     (case power_value (dict_get sd ''PCONS'' PNone) of
        Some f \<Rightarrow> PFloat f
      | None \<Rightarrow> dict_get sd ''STATUS'' (PStr ''unknown''))"
    using reduce_powerlines_spec [of sd] by simp
  show "fst (snd (reduce_powerlines sd)) =
     [(''Consumo'', opt_float (power_value (dict_get sd ''PCONS'' PNone))),
      (''Produzione'', opt_float (power_value (dict_get sd ''PPROD'' PNone))),
      (''Status'', dict_get sd ''STATUS'' (PStr ''unknown''))]"
    using reduce_powerlines_spec [of sd] by simp
next
  assume a: "map_of sd ''PCONS'' = Some (PStr ''12.5'') \<and> map_of sd ''PPROD'' = Some (PStr ''3'')
        \<and> map_of sd ''STATUS'' = Some (PStr ''on'')"
  then have "dict_get sd ''PCONS'' PNone = PStr ''12.5''" "dict_get sd ''PPROD'' PNone = PStr ''3''"
    "dict_get sd ''STATUS'' (PStr ''unknown'') = PStr ''on''"
    by (simp_all add: dict_get_def)
  then show "reduce_powerlines sd =
        (PFloat (Fin (25 / 2)),
         [(''Consumo'', PFloat (Fin (25 / 2))), (''Produzione'', PFloat (Fin 3)),
          (''Status'', PStr ''on'')],
         [])"
    by (simp add: reduce_powerlines_def parse_power_example1 parse_power_example2 opt_float_def)
qed


theorem powerlines_state_and_attributes_witness:
  "reduce_powerlines
     [(''ID'', PStr ''1''), (''PCONS'', PStr ''12.5''), (''PPROD'', PStr ''3''),
      (''STATUS'', PStr ''on'')] =
   (PFloat (Fin (25 / 2)),
    [(''Consumo'', PFloat (Fin (25 / 2))), (''Produzione'', PFloat (Fin 3)),
     (''Status'', PStr ''on'')],
    [])"
proof -
  let ?sd = "[(''ID'', PStr ''1''), (''PCONS'', PStr ''12.5''), (''PPROD'', PStr ''3''),
      (''STATUS'', PStr ''on'')]"
  have h: "map_of ?sd ''PCONS'' = Some (PStr ''12.5'') \<and> map_of ?sd ''PPROD'' = Some (PStr ''3'')
        \<and> map_of ?sd ''STATUS'' = Some (PStr ''on'')"
    by simp
  from conjunct2 [OF conjunct2 [OF powerlines_state_and_attributes [of ?sd]]] h
  show ?thesis by (rule mp)
qed












section \<open>Empty and absent fields\<close>

lemma parse_temp_map_of:
  "parse_temp (PDict td) k =
     (case map_of td k of
        None \<Rightarrow> Inr None
      | Some c \<Rightarrow>
          if py_truthy c then
            ebind (py_replace_plus c) (\<lambda>s. ebind (py_float s) (\<lambda>f. Inr (Some f)))
          else Inr None)"
  by (simp add: parse_temp_def py_get_def dict_get_def ebind_def split: option.splits)

lemma parse_temp_empty:
  "map_of td k = Some (PStr []) \<or> map_of td k = None \<Longrightarrow> parse_temp (PDict td) k = Inr None"
  by (auto simp: parse_temp_map_of)

lemma parse_temp_not_dict:
  "(\<forall>td. x \<noteq> PDict td) \<Longrightarrow> parse_temp x k = Inl AttributeError"
  by (cases x) (simp_all add: parse_temp_def py_get_def ebind_def)

lemma parse_power_empty: "parse_power (PStr []) = Inr None" "parse_power PNone = Inr None"
  by (simp_all add: parse_power_def)

lemma parse_humidity_empty:
  "map_of sd ''H'' = Some (PStr []) \<or> map_of sd ''H'' = None \<Longrightarrow> parse_humidity sd = Inr None"
  by (auto simp: parse_humidity_def dict_get_def)

lemma dict_get_delete: "k' \<noteq> k \<Longrightarrow> dict_get (AList.delete k sd) k' d = dict_get sd k' d"
  by (simp add: dict_get_def)

lemma dict_get_update: "k' \<noteq> k \<Longrightarrow> dict_get (AList.update k v sd) k' d = dict_get sd k' d"
  by (simp add: dict_get_def AList.update_conv')

lemma dict_get_update_same: "dict_get (AList.update k v sd) k d = v"
  by (simp add: dict_get_def AList.update_conv')

lemma parse_temp_delete:
  "map_of td k = Some (PStr []) \<Longrightarrow>
   parse_temp (PDict (AList.delete k td)) k' = parse_temp (PDict td) k'"
  by (cases "k' = k") (simp_all add: parse_temp_map_of AList.delete_conv')

lemma system_empty_as_absent:
  assumes "dict_get sd ''TEMP'' (PDict []) = PDict td" and "map_of td k = Some (PStr [])"
  shows "reduce_system (AList.update ''TEMP'' (PDict (AList.delete k td)) sd) = reduce_system sd"
proof -
  let ?sd = "AList.update ''TEMP'' (PDict (AList.delete k td)) sd"
  have t: "dict_get ?sd ''TEMP'' (PDict []) = PDict (AList.delete k td)"
    by (rule dict_get_update_same)
  have a: "dict_get ?sd ''ARM'' (PStr ''unknown'') = dict_get sd ''ARM'' (PStr ''unknown'')"
    by (simp add: dict_get_update)
  show ?thesis
    unfolding reduce_system_def Let_def t a assms(1) parse_temp_delete [OF assms(2)] ..
qed

lemma powerlines_empty_as_absent:
  assumes "k = ''PCONS'' \<or> k = ''PPROD''" and "map_of sd k = Some (PStr [])"
  shows "reduce_powerlines (AList.delete k sd) = reduce_powerlines sd"
proof -
  have a: "parse_power (dict_get (AList.delete k sd) k' PNone) = parse_power (dict_get sd k' PNone)" for k'
    using assms(2) by (cases "k' = k") (simp_all add: dict_get_def AList.delete_conv' parse_power_empty)
  have b: "dict_get (AList.delete k sd) ''STATUS'' (PStr ''unknown'') = dict_get sd ''STATUS'' (PStr ''unknown'')"
    using assms(1) by (auto simp: dict_get_delete)
  show ?thesis
    unfolding reduce_powerlines_def Let_def a b ..
qed

lemma domus_empty_as_absent:
  assumes "k = ''T'' \<or> k = ''H''" and "map_of sd k = Some (PStr [])"
  shows "reduce_domus upd (AList.delete k sd) =
         (fst (reduce_domus upd sd), AList.delete k (fst (snd (reduce_domus upd sd))),
          snd (snd (reduce_domus upd sd)))"
proof -
  have a: "parse_temp (PDict (AList.delete k sd)) ''T'' = parse_temp (PDict sd) ''T''"
    by (rule parse_temp_delete [OF assms(2)])
  have h: "parse_humidity (AList.delete k sd) = parse_humidity sd"
    using assms(2)
    by (cases "k = ''H''") (simp_all add: parse_humidity_def dict_get_def AList.delete_conv')
  have b: "dict_get (AList.delete k sd) ''STA'' (PStr ''unknown'') = dict_get sd ''STA'' (PStr ''unknown'')"
    using assms(1) by (auto simp: dict_get_delete)
  have c: "AList.update ''humidity'' x (AList.update ''temperature'' y (AList.delete k sd)) =
           AList.delete k (AList.update ''humidity'' x (AList.update ''temperature'' y sd))" for x y
    using assms(1) by (auto simp: AList.delete_update)
  show ?thesis
    unfolding reduce_domus_def Let_def a h b c
    by (simp split: sum.splits prod.splits)
qed


lemma system_empty_null:
  assumes "dict_get sd ''TEMP'' (PDict []) = PDict td"
  shows "(map_of td ''IN'' = Some (PStr []) \<longrightarrow>
            map_of (fst (snd (reduce_system sd))) ''temp_in'' = Some PNone \<and>
            snd (snd (reduce_system sd)) =
              (case parse_temp (PDict td) ''OUT'' of
                 Inl e \<Rightarrow> [(''Error converting temperature: %s'', e)] | Inr v \<Rightarrow> []))
       \<and> (map_of td ''OUT'' = Some (PStr []) \<longrightarrow>
            map_of (fst (snd (reduce_system sd))) ''temp_out'' = Some PNone \<and>
            snd (snd (reduce_system sd)) =
              (case parse_temp (PDict td) ''IN'' of
                 Inl e \<Rightarrow> [(''Error converting temperature: %s'', e)] | Inr v \<Rightarrow> []))"
  using assms
  by (auto simp: reduce_system_def ebind_def opt_float_def parse_temp_empty split: sum.splits)

lemma powerlines_empty_null:
  "(map_of sd ''PCONS'' = Some (PStr []) \<longrightarrow>
      fst (reduce_powerlines sd) = dict_get sd ''STATUS'' (PStr ''unknown'') \<and>
      map_of (fst (snd (reduce_powerlines sd))) ''Consumo'' = Some PNone \<and>
      (\<forall>e. (''Error converting PCONS: %s'', e) \<notin> set (snd (snd (reduce_powerlines sd)))))
   \<and> (map_of sd ''PPROD'' = Some (PStr []) \<longrightarrow>
      map_of (fst (snd (reduce_powerlines sd))) ''Produzione'' = Some PNone \<and>
      (\<forall>e. (''Error converting PPROD: %s'', e) \<notin> set (snd (snd (reduce_powerlines sd)))))"
  by (auto simp: reduce_powerlines_def dict_get_def opt_float_def parse_power_empty Let_def
      split: sum.splits)

lemma domus_empty_null:
  "(map_of sd ''T'' = Some (PStr []) \<longrightarrow>
      fst (reduce_domus upd sd) = dict_get sd ''STA'' (PStr ''unknown'') \<and>
      map_of (fst (snd (reduce_domus upd sd))) ''temperature'' = Some PNone \<and>
      (\<forall>e. (if upd then ''Error converting temperature in domus sensor update: %s''
                 else ''Error converting temperature in domus sensor: %s'', e)
            \<notin> set (snd (snd (reduce_domus upd sd)))))
   \<and> (map_of sd ''H'' = Some (PStr []) \<longrightarrow>
      map_of (fst (snd (reduce_domus upd sd))) ''humidity'' = Some PNone \<and>
      (\<forall>e. (if upd then ''Error converting humidity in domus sensor update: %s''
                 else ''Error converting humidity in domus sensor: %s'', e)
            \<notin> set (snd (snd (reduce_domus upd sd)))))"
  by (auto simp: reduce_domus_def opt_float_def parse_temp_empty parse_humidity_empty Let_def
      AList.update_conv' split: sum.splits)


text \<open>
  Claim C8. A numeric field that is present and equal to the empty string
  (\<^verbatim>\<open>TEMP.IN\<close>, \<^verbatim>\<open>TEMP.OUT\<close>, \<^verbatim>\<open>PCONS\<close>, \<^verbatim>\<open>PPROD\<close>, \<^verbatim>\<open>T\<close>, \<^verbatim>\<open>H\<close>) is
  treated as absent: its conversion raises nothing and yields null, no error is logged
  for it, and the branch gives what it gives on the record without the field (for
  domus, whose attributes repeat the record, up to the removed key).
\<close>

theorem empty_field_is_absent:
  "(dict_get sd ''TEMP'' (PDict []) = PDict td \<and> (k = ''IN'' \<or> k = ''OUT'')
      \<and> map_of td k = Some (PStr []) \<longrightarrow>
      parse_temp (PDict td) k = Inr None \<and>
      map_of (fst (snd (reduce_system sd))) (if k = ''IN'' then ''temp_in'' else ''temp_out'')
        = Some PNone \<and>
      snd (snd (reduce_system sd)) =
        (case parse_temp (PDict td) (if k = ''IN'' then ''OUT'' else ''IN'') of
           Inl e \<Rightarrow> [(''Error converting temperature: %s'', e)] | Inr v \<Rightarrow> []) \<and>
      reduce_system (AList.update ''TEMP'' (PDict (AList.delete k td)) sd) = reduce_system sd)
   \<and> ((k = ''PCONS'' \<or> k = ''PPROD'') \<and> map_of sd k = Some (PStr []) \<longrightarrow>
      parse_power (dict_get sd k PNone) = Inr None \<and>
      map_of (fst (snd (reduce_powerlines sd))) (if k = ''PCONS'' then ''Consumo'' else ''Produzione'')
        = Some PNone \<and>
      (\<forall>e. (if k = ''PCONS'' then ''Error converting PCONS: %s'' else ''Error converting PPROD: %s'', e)
            \<notin> set (snd (snd (reduce_powerlines sd)))) \<and>
      reduce_powerlines (AList.delete k sd) = reduce_powerlines sd)
   \<and> ((k = ''T'' \<or> k = ''H'') \<and> map_of sd k = Some (PStr []) \<longrightarrow>
      (if k = ''T'' then parse_temp (PDict sd) ''T'' else parse_humidity sd) = Inr None \<and>
      map_of (fst (snd (reduce_domus upd sd))) (if k = ''T'' then ''temperature'' else ''humidity'')
        = Some PNone \<and>
      (\<forall>e. (if k = ''T''
             then (if upd then ''Error converting temperature in domus sensor update: %s''
                   else ''Error converting temperature in domus sensor: %s'')
             else (if upd then ''Error converting humidity in domus sensor update: %s''
                   else ''Error converting humidity in domus sensor: %s''), e)
            \<notin> set (snd (snd (reduce_domus upd sd)))) \<and>
      reduce_domus upd (AList.delete k sd) =
        (fst (reduce_domus upd sd), AList.delete k (fst (snd (reduce_domus upd sd))),
         snd (snd (reduce_domus upd sd))))"
proof (intro conjI impI)
  assume a: "dict_get sd ''TEMP'' (PDict []) = PDict td \<and> (k = ''IN'' \<or> k = ''OUT'')
      \<and> map_of td k = Some (PStr [])"
  then show "parse_temp (PDict td) k = Inr None"
    by (simp add: parse_temp_empty)
  from a system_empty_null [of sd td]
  show "map_of (fst (snd (reduce_system sd))) (if k = ''IN'' then ''temp_in'' else ''temp_out'')
        = Some PNone"
    by auto
  from a system_empty_null [of sd td]
  show "snd (snd (reduce_system sd)) =
        (case parse_temp (PDict td) (if k = ''IN'' then ''OUT'' else ''IN'') of
           Inl e \<Rightarrow> [(''Error converting temperature: %s'', e)] | Inr v \<Rightarrow> [])"
    by auto
  from a show "reduce_system (AList.update ''TEMP'' (PDict (AList.delete k td)) sd) = reduce_system sd"
    by (simp add: system_empty_as_absent)
next
  assume a: "(k = ''PCONS'' \<or> k = ''PPROD'') \<and> map_of sd k = Some (PStr [])"
  then show "parse_power (dict_get sd k PNone) = Inr None"
    by (simp add: dict_get_def parse_power_empty)
  from a powerlines_empty_null [of sd]
  show "map_of (fst (snd (reduce_powerlines sd))) (if k = ''PCONS'' then ''Consumo'' else ''Produzione'')
        = Some PNone"
    by auto
  from a powerlines_empty_null [of sd]
  show "\<forall>e. (if k = ''PCONS'' then ''Error converting PCONS: %s'' else ''Error converting PPROD: %s'', e)
            \<notin> set (snd (snd (reduce_powerlines sd)))"
    by auto
  from a show "reduce_powerlines (AList.delete k sd) = reduce_powerlines sd"
    by (simp add: powerlines_empty_as_absent)
next
  assume a: "(k = ''T'' \<or> k = ''H'') \<and> map_of sd k = Some (PStr [])"
  then show "(if k = ''T'' then parse_temp (PDict sd) ''T'' else parse_humidity sd) = Inr None"
    by (auto simp: parse_temp_empty parse_humidity_empty)
  from a domus_empty_null [of sd upd]
  show "map_of (fst (snd (reduce_domus upd sd))) (if k = ''T'' then ''temperature'' else ''humidity'')
        = Some PNone"
    by auto
  from a domus_empty_null [of sd upd]
  show "\<forall>e. (if k = ''T''
             then (if upd then ''Error converting temperature in domus sensor update: %s''
                   else ''Error converting temperature in domus sensor: %s'')
             else (if upd then ''Error converting humidity in domus sensor update: %s''
                   else ''Error converting humidity in domus sensor: %s''), e)
            \<notin> set (snd (snd (reduce_domus upd sd)))"
    by auto
  from a show "reduce_domus upd (AList.delete k sd) =
        (fst (reduce_domus upd sd), AList.delete k (fst (snd (reduce_domus upd sd))),
         snd (snd (reduce_domus upd sd)))"
    by (simp add: domus_empty_as_absent)
qed

theorem empty_field_is_absent_witness:
  "reduce_powerlines [(''ID'', PStr ''1''), (''STATUS'', PStr ''on'')] =
   reduce_powerlines [(''ID'', PStr ''1''), (''PCONS'', PStr []), (''STATUS'', PStr ''on'')]"
proof -
  let ?sd = "[(''ID'', PStr ''1''), (''PCONS'', PStr []), (''STATUS'', PStr ''on'')]"
  have h: "(''PCONS'' = ''PCONS'' \<or> ''PCONS'' = ''PPROD'') \<and> map_of ?sd ''PCONS'' = Some (PStr [])"
    by simp
  have d: "AList.delete ''PCONS'' ?sd = [(''ID'', PStr ''1''), (''STATUS'', PStr ''on'')]"
    by simp
  from conjunct1 [OF conjunct2 [OF empty_field_is_absent [where k = "''PCONS''" and sd = ?sd]]] h
  have "reduce_powerlines (AList.delete ''PCONS'' ?sd) = reduce_powerlines ?sd"
    by blast
  then show ?thesis unfolding d .
qed

section \<open>The system branch\<close>

lemma parse_temp_string:
  assumes "map_of td k = Some (PStr s)" and "s \<noteq> []"
  shows "parse_temp (PDict td) k =
     (case float_of_string (filter (\<lambda>c. c \<noteq> CHR ''+'') s) of
        None \<Rightarrow> Inl ValueError | Some f \<Rightarrow> Inr (Some f))"
  using assms
  by (simp add: parse_temp_map_of py_replace_plus_def replace_plus_def py_float_def ebind_def
      split: option.splits)

lemma reduce_system_state: "fst (reduce_system sd) = dict_get sd ''ARM'' (PStr ''unknown'')"
  by (simp add: reduce_system_def Let_def split: sum.splits prod.splits)

lemma reduce_system_keys:
  "\<exists>a b. fst (snd (reduce_system sd)) = [(''temp_in'', opt_float a), (''temp_out'', opt_float b)]"
proof (cases "ebind (parse_temp (dict_get sd ''TEMP'' (PDict [])) ''IN'') (\<lambda>temp_in.
              ebind (parse_temp (dict_get sd ''TEMP'' (PDict [])) ''OUT'') (\<lambda>temp_out. Inr (temp_in, temp_out)))")
  case (Inl e)
  then have "fst (snd (reduce_system sd)) = [(''temp_in'', opt_float None), (''temp_out'', opt_float None)]"
    by (simp add: reduce_system_def Let_def opt_float_def)
  then show ?thesis by blast
next
  case (Inr p)
  then have "fst (snd (reduce_system sd)) = [(''temp_in'', opt_float (fst p)), (''temp_out'', opt_float (snd p))]"
    by (simp add: reduce_system_def Let_def split: prod.splits)
  then show ?thesis by blast
qed

lemma reduce_system_strings:
  assumes "dict_get sd ''TEMP'' (PDict []) = PDict td"
    and "map_of td ''IN'' = Some (PStr s)" and "s \<noteq> []"
    and "map_of td ''OUT'' = Some (PStr s')" and "s' \<noteq> []"
  shows "fst (snd (reduce_system sd)) =
     (case (float_of_string (filter (\<lambda>c. c \<noteq> CHR ''+'') s),
            float_of_string (filter (\<lambda>c. c \<noteq> CHR ''+'') s')) of
        (Some a, Some b) \<Rightarrow> [(''temp_in'', PFloat a), (''temp_out'', PFloat b)]
      | _ \<Rightarrow> [(''temp_in'', PNone), (''temp_out'', PNone)])"
  unfolding reduce_system_def Let_def assms(1)
    parse_temp_string [OF assms(2,3)] parse_temp_string [OF assms(4,5)]
  by (simp add: ebind_def opt_float_def split: option.splits)

lemma float_examples:
  "float_of_string ''21.0'' = Some (Fin 21)"
  "float_of_string ''5.5'' = Some (Fin (11 / 2))"
  by code_simp+


lemma parse_temp_value: "parse_temp (PDict td) k = temp_value (map_of td k)"
  by (cases "map_of td k")
     (auto simp: parse_temp_map_of temp_value_def py_replace_plus_def replace_plus_def
        py_float_def ebind_def split: pyval.splits option.splits)

lemma reduce_system_dict:
  assumes "dict_get sd ''TEMP'' (PDict []) = PDict td"
  shows "snd (reduce_system sd) =
     (case temp_value (map_of td ''IN'') of
        Inl e \<Rightarrow> ([(''temp_in'', PNone), (''temp_out'', PNone)],
                  [(''Error converting temperature: %s'', e)])
      | Inr a \<Rightarrow>
          (case temp_value (map_of td ''OUT'') of
             Inl e \<Rightarrow> ([(''temp_in'', PNone), (''temp_out'', PNone)],
                       [(''Error converting temperature: %s'', e)])
           | Inr b \<Rightarrow> ([(''temp_in'', opt_float a), (''temp_out'', opt_float b)], [])))"
  unfolding reduce_system_def Let_def assms parse_temp_value
  by (simp add: ebind_def split: sum.splits)

lemma reduce_system_not_dict:
  assumes "\<forall>td. dict_get sd ''TEMP'' (PDict []) \<noteq> PDict td"
  shows "snd (reduce_system sd) =
     ([(''temp_in'', PNone), (''temp_out'', PNone)],
      [(''Error converting temperature: %s'', AttributeError)])"
  unfolding reduce_system_def Let_def parse_temp_not_dict [OF assms]
  by (simp add: ebind_def)

lemma temp_value_cases:
  "temp_value None = Inr None"
  "temp_value (Some (PStr [])) = Inr None"
  "temp_value (Some PNone) = Inr None"
  "s \<noteq> [] \<Longrightarrow> temp_value (Some (PStr s)) =
     (case float_of_string (filter (\<lambda>c. c \<noteq> CHR ''+'') s) of
        None \<Rightarrow> Inl ValueError | Some f \<Rightarrow> Inr (Some f))"
  by (simp_all add: temp_value_def)


lemma reduce_system_one_field:
  assumes "dict_get sd ''TEMP'' (PDict []) = PDict td"
    and "map_of td k = Some (PStr s)" and "s \<noteq> []"
    and "map_of td k' = None \<or> map_of td k' = Some (PStr []) \<or> map_of td k' = Some PNone"
    and "(k = ''IN'' \<and> k' = ''OUT'') \<or> (k = ''OUT'' \<and> k' = ''IN'')"
  shows "fst (snd (reduce_system sd)) =
     [(''temp_in'', if k = ''IN'' then opt_float (float_of_string (filter (\<lambda>c. c \<noteq> CHR ''+'') s)) else PNone),
      (''temp_out'', if k = ''OUT'' then opt_float (float_of_string (filter (\<lambda>c. c \<noteq> CHR ''+'') s)) else PNone)]"
proof -
  have v: "temp_value (map_of td k) =
     (case float_of_string (filter (\<lambda>c. c \<noteq> CHR ''+'') s) of
        None \<Rightarrow> Inl ValueError | Some f \<Rightarrow> Inr (Some f))"
    using assms(2,3) by (simp add: temp_value_cases)
  have n: "temp_value (map_of td k') = Inr None"
    using assms(4) by (auto simp: temp_value_cases)
  from assms(5) show ?thesis
  proof
    assume "k = ''IN'' \<and> k' = ''OUT''"
    with v n reduce_system_dict [OF assms(1)] show ?thesis
      by (simp add: opt_float_def split: option.splits)
  next
    assume "k = ''OUT'' \<and> k' = ''IN''"
    with v n reduce_system_dict [OF assms(1)] show ?thesis
      by (simp add: opt_float_def split: option.splits)
  qed
qed

text \<open>
  Claim C3, as the code has it. In the system branch the state is the \<^verbatim>\<open>ARM\<close> field
  (\<^verbatim>\<open>"unknown"\<close> when absent) and the attributes are exactly \<^verbatim>\<open>temp_in\<close> and
  \<^verbatim>\<open>temp_out\<close>, each null or a float. A non-empty string in \<^verbatim>\<open>TEMP.IN\<close> or
  \<^verbatim>\<open>TEMP.OUT\<close> is converted after every \<^verbatim>\<open>+\<close> in it has been removed, wherever it
  stands; an absent, null or empty field is null. When neither conversion raises the
  attributes are the two values, and when one raises both are null and the error is
  logged once; this holds whatever the other field is (absent, empty or a string).
  With \<^verbatim>\<open>TEMP={"IN": "+21.0", "OUT": "5.5"}\<close> and \<^verbatim>\<open>ARM="ARMED"\<close> the state is
  \<^verbatim>\<open>"ARMED"\<close> and the attributes are 21.0 and 5.5.
\<close>

theorem system_state_and_attributes:
  "fst (reduce_system sd) = dict_get sd ''ARM'' (PStr ''unknown'')
   \<and> (\<exists>a b. fst (snd (reduce_system sd)) =
          [(''temp_in'', opt_float a), (''temp_out'', opt_float b)])
   \<and> (dict_get sd ''TEMP'' (PDict []) = PDict td
        \<and> map_of td ''IN'' = Some (PStr s) \<and> s \<noteq> []
        \<and> map_of td ''OUT'' = Some (PStr s') \<and> s' \<noteq> [] \<longrightarrow>
      fst (snd (reduce_system sd)) =
        (case (float_of_string (filter (\<lambda>c. c \<noteq> CHR ''+'') s),
               float_of_string (filter (\<lambda>c. c \<noteq> CHR ''+'') s')) of
           (Some a, Some b) \<Rightarrow> [(''temp_in'', PFloat a), (''temp_out'', PFloat b)]
         | _ \<Rightarrow> [(''temp_in'', PNone), (''temp_out'', PNone)]))
   \<and> (map_of sd ''ARM'' = Some (PStr ''ARMED'')
        \<and> map_of sd ''TEMP'' = Some (PDict td)
        \<and> map_of td ''IN'' = Some (PStr ''+21.0'') \<and> map_of td ''OUT'' = Some (PStr ''5.5'') \<longrightarrow>
      fst (reduce_system sd) = PStr ''ARMED'' \<and>
      fst (snd (reduce_system sd)) =
        [(''temp_in'', PFloat (Fin 21)), (''temp_out'', PFloat (Fin (11 / 2)))])
   \<and> (dict_get sd ''TEMP'' (PDict []) = PDict td
        \<and> map_of td k = Some (PStr s) \<and> s \<noteq> []
        \<and> (map_of td k' = None \<or> map_of td k' = Some (PStr []) \<or> map_of td k' = Some PNone)
        \<and> ((k = ''IN'' \<and> k' = ''OUT'') \<or> (k = ''OUT'' \<and> k' = ''IN'')) \<longrightarrow>
      fst (snd (reduce_system sd)) =
        [(''temp_in'', if k = ''IN''
            then opt_float (float_of_string (filter (\<lambda>c. c \<noteq> CHR ''+'') s)) else PNone),
         (''temp_out'', if k = ''OUT''
            then opt_float (float_of_string (filter (\<lambda>c. c \<noteq> CHR ''+'') s)) else PNone)])
   \<and> (dict_get sd ''TEMP'' (PDict []) = PDict td \<longrightarrow>
      snd (reduce_system sd) =
        (case temp_value (map_of td ''IN'') of
           Inl e \<Rightarrow> ([(''temp_in'', PNone), (''temp_out'', PNone)],
                     [(''Error converting temperature: %s'', e)])
         | Inr a \<Rightarrow>
             (case temp_value (map_of td ''OUT'') of
                Inl e \<Rightarrow> ([(''temp_in'', PNone), (''temp_out'', PNone)],
                          [(''Error converting temperature: %s'', e)])
              | Inr b \<Rightarrow> ([(''temp_in'', opt_float a), (''temp_out'', opt_float b)], []))))
   \<and> ((\<forall>d. dict_get sd ''TEMP'' (PDict []) \<noteq> PDict d) \<longrightarrow>
      snd (reduce_system sd) =
        ([(''temp_in'', PNone), (''temp_out'', PNone)],
         [(''Error converting temperature: %s'', AttributeError)]))"
proof (intro conjI impI)
  show "fst (reduce_system sd) = dict_get sd ''ARM'' (PStr ''unknown'')"
    by (rule reduce_system_state)
  show "\<exists>a b. fst (snd (reduce_system sd)) =
          [(''temp_in'', opt_float a), (''temp_out'', opt_float b)]"
    by (rule reduce_system_keys)
next
  assume b: "dict_get sd ''TEMP'' (PDict []) = PDict td
        \<and> map_of td ''IN'' = Some (PStr s) \<and> s \<noteq> []
        \<and> map_of td ''OUT'' = Some (PStr s') \<and> s' \<noteq> []"
  then have b1: "dict_get sd ''TEMP'' (PDict []) = PDict td"
    and b2: "map_of td ''IN'' = Some (PStr s)" and b3: "s \<noteq> []"
    and b4: "map_of td ''OUT'' = Some (PStr s')" and b5: "s' \<noteq> []"
    by blast+
  show "fst (snd (reduce_system sd)) =
        (case (float_of_string (filter (\<lambda>c. c \<noteq> CHR ''+'') s),
               float_of_string (filter (\<lambda>c. c \<noteq> CHR ''+'') s')) of
           (Some a, Some b) \<Rightarrow> [(''temp_in'', PFloat a), (''temp_out'', PFloat b)]
         | _ \<Rightarrow> [(''temp_in'', PNone), (''temp_out'', PNone)])"
    by (rule reduce_system_strings [OF b1 b2 b3 b4 b5])
next
  assume a: "map_of sd ''ARM'' = Some (PStr ''ARMED'')
        \<and> map_of sd ''TEMP'' = Some (PDict td)
        \<and> map_of td ''IN'' = Some (PStr ''+21.0'') \<and> map_of td ''OUT'' = Some (PStr ''5.5'')"
  then show "fst (reduce_system sd) = PStr ''ARMED''"
    by (simp add: reduce_system_state dict_get_def)
  from a have t: "dict_get sd ''TEMP'' (PDict []) = PDict td"
    by (simp add: dict_get_def)
  from a have a2: "map_of td ''IN'' = Some (PStr ''+21.0'')"
    and a4: "map_of td ''OUT'' = Some (PStr ''5.5'')"
    by blast+
  have "fst (snd (reduce_system sd)) =
        (case (float_of_string (filter (\<lambda>c. c \<noteq> CHR ''+'') ''+21.0''),
               float_of_string (filter (\<lambda>c. c \<noteq> CHR ''+'') ''5.5'')) of
           (Some a, Some b) \<Rightarrow> [(''temp_in'', PFloat a), (''temp_out'', PFloat b)]
         | _ \<Rightarrow> [(''temp_in'', PNone), (''temp_out'', PNone)])"
    by (rule reduce_system_strings [OF t a2 _ a4]) simp_all
  then show "fst (snd (reduce_system sd)) =
        [(''temp_in'', PFloat (Fin 21)), (''temp_out'', PFloat (Fin (11 / 2)))]"
    by (simp add: float_examples)
next
  assume c: "dict_get sd ''TEMP'' (PDict []) = PDict td
        \<and> map_of td k = Some (PStr s) \<and> s \<noteq> []
        \<and> (map_of td k' = None \<or> map_of td k' = Some (PStr []) \<or> map_of td k' = Some PNone)
        \<and> ((k = ''IN'' \<and> k' = ''OUT'') \<or> (k = ''OUT'' \<and> k' = ''IN''))"
  then have c1: "dict_get sd ''TEMP'' (PDict []) = PDict td"
    and c2: "map_of td k = Some (PStr s)" and c3: "s \<noteq> []"
    and c4: "map_of td k' = None \<or> map_of td k' = Some (PStr []) \<or> map_of td k' = Some PNone"
    and c5: "(k = ''IN'' \<and> k' = ''OUT'') \<or> (k = ''OUT'' \<and> k' = ''IN'')"
    by blast+
  show "fst (snd (reduce_system sd)) =
        [(''temp_in'', if k = ''IN''
            then opt_float (float_of_string (filter (\<lambda>c. c \<noteq> CHR ''+'') s)) else PNone),
         (''temp_out'', if k = ''OUT''
            then opt_float (float_of_string (filter (\<lambda>c. c \<noteq> CHR ''+'') s)) else PNone)]"
    by (rule reduce_system_one_field [OF c1 c2 c3 c4 c5])
next
  assume "dict_get sd ''TEMP'' (PDict []) = PDict td"
  then show "snd (reduce_system sd) =
        (case temp_value (map_of td ''IN'') of
           Inl e \<Rightarrow> ([(''temp_in'', PNone), (''temp_out'', PNone)],
                     [(''Error converting temperature: %s'', e)])
         | Inr a \<Rightarrow>
             (case temp_value (map_of td ''OUT'') of
                Inl e \<Rightarrow> ([(''temp_in'', PNone), (''temp_out'', PNone)],
                          [(''Error converting temperature: %s'', e)])
              | Inr b \<Rightarrow> ([(''temp_in'', opt_float a), (''temp_out'', opt_float b)], [])))"
    by (rule reduce_system_dict)
next
  assume "\<forall>d. dict_get sd ''TEMP'' (PDict []) \<noteq> PDict d"
  then show "snd (reduce_system sd) =
        ([(''temp_in'', PNone), (''temp_out'', PNone)],
         [(''Error converting temperature: %s'', AttributeError)])"
    by (rule reduce_system_not_dict)
qed

theorem system_state_and_attributes_witness:
  "fst (snd (reduce_system
     [(''ID'', PStr ''1''), (''ARM'', PStr ''ARMED''),
      (''TEMP'', PDict [(''IN'', PStr ''+21.0''), (''OUT'', PStr ''5.5'')])])) =
   [(''temp_in'', PFloat (Fin 21)), (''temp_out'', PFloat (Fin (11 / 2)))]"
proof -
  let ?td = "[(''IN'', PStr ''+21.0''), (''OUT'', PStr ''5.5'')]"
  let ?sd = "[(''ID'', PStr ''1''), (''ARM'', PStr ''ARMED''), (''TEMP'', PDict ?td)]"
  have h: "map_of ?sd ''ARM'' = Some (PStr ''ARMED'')
        \<and> map_of ?sd ''TEMP'' = Some (PDict ?td)
        \<and> map_of ?td ''IN'' = Some (PStr ''+21.0'') \<and> map_of ?td ''OUT'' = Some (PStr ''5.5'')"
    by simp
  from conjunct1 [OF conjunct2 [OF conjunct2 [OF conjunct2
         [OF system_state_and_attributes [where sd = ?sd and td = ?td]]]]] h
  show ?thesis by blast
qed

theorem system_plus_inside_counterexample:
  "reduce_system
     [(''ID'', PStr ''1''), (''ARM'', PStr ''ARMED''),
      (''TEMP'', PDict [(''IN'', PStr ''2+1.0''), (''OUT'', PStr ''5.5'')])] =
   (PStr ''ARMED'', [(''temp_in'', PFloat (Fin 21)), (''temp_out'', PFloat (Fin (11 / 2)))], [])
   \<and> PFloat (Fin 21) \<noteq> PNone"
  by code_simp

section \<open>The partitions branch\<close>

lemma sum_enc_total:
  "fst (sum_enc upd vals acc lg) = foldl fadd acc (List.map_filter enc_value vals)"
  by (induction vals arbitrary: acc lg)
     (auto simp: List.map_filter_simps enc_value_def split: sum.splits)

lemma sum_enc_from_zero: "fst (sum_enc upd vals (Fin 0) []) = enc_total vals"
  by (simp add: sum_enc_total enc_total_def)

lemma reduce_partitions_no_stat:
  assumes "map_of sd ''STAT'' = None \<or> map_of sd ''STAT'' = Some (PList [])"
  shows "reduce_partitions upd sd =
     Inr (dict_get sd ''STA'' (PStr ''unknown''),
          AList.update ''total_consumption'' (PFloat (Fin 0)) sd, [])"
  using assms by (auto simp: reduce_partitions_def dict_get_def ebind_def)

lemma reduce_partitions_no_val:
  assumes "map_of sd ''STAT'' = Some (PList stat)" and "stat \<noteq> []"
    and "last stat = PDict d" and "map_of d ''VAL'' = None"
  shows "reduce_partitions upd sd =
     Inr (dict_get sd ''STA'' (PStr ''unknown''),
          AList.update ''total_consumption'' (PFloat (Fin 0)) sd, [])"
proof -
  from assms(1) have s: "dict_get sd ''STAT'' (PList []) = PList stat"
    by (simp add: dict_get_def)
  show ?thesis
    unfolding reduce_partitions_def Let_def s
    using assms(2,3,4)
    by (simp add: py_last_def py_get_def dict_get_def py_iter_def ebind_def)
qed

lemma reduce_partitions_val:
  assumes "map_of sd ''STAT'' = Some (PList stat)" and "stat \<noteq> []"
    and "last stat = PDict d" and "map_of d ''VAL'' = Some (PList vals)"
  shows "reduce_partitions upd sd =
     Inr (if fgt0 (enc_total vals) then PFloat (enc_total vals)
          else dict_get sd ''STA'' (PStr ''unknown''),
          AList.update ''total_consumption'' (PFloat (enc_total vals)) sd,
          snd (sum_enc upd vals (Fin 0) []))"
proof -
  from assms(1) have s: "dict_get sd ''STAT'' (PList []) = PList stat"
    by (simp add: dict_get_def)
  obtain t lg where r: "sum_enc upd vals (Fin 0) [] = (t, lg)"
    by (cases "sum_enc upd vals (Fin 0) []")
  with sum_enc_from_zero [of upd vals] have t: "t = enc_total vals" by simp
  show ?thesis
    unfolding reduce_partitions_def Let_def s
    using assms(2,3,4) r t
    by (simp add: py_last_def py_get_def dict_get_def py_iter_def ebind_def)
qed

lemma enc_examples:
  "ebind (py_get (PDict [(''ENC'', PStr ''1.5'')]) ''ENC'' (PInt 0)) py_float = Inr (Fin (3 / 2))"
  "ebind (py_get (PDict [(''ENC'', PStr ''2.5'')]) ''ENC'' (PInt 0)) py_float = Inr (Fin (5 / 2))"
  "round_double (3 / 2) = Fin (3 / 2)"
  "round_double 4 = Fin 4"
  by code_simp+

lemma sum_enc_example:
  "sum_enc upd [PDict [(''ENC'', PStr ''1.5'')], PDict [(''ENC'', PStr ''2.5'')]] (Fin 0) [] = (Fin 4, [])"
  by (simp add: enc_examples)

lemma enc_total_example:
  "enc_total [PDict [(''ENC'', PStr ''1.5'')], PDict [(''ENC'', PStr ''2.5'')]] = Fin 4"
proof -
  let ?vals = "[PDict [(''ENC'', PStr ''1.5'')], PDict [(''ENC'', PStr ''2.5'')]]"
  have "enc_total ?vals = fst (sum_enc False ?vals (Fin 0) [])"
    by (rule sum_enc_from_zero [symmetric])
  also have "\<dots> = Fin 4"
    by (simp only: sum_enc_example fst_conv)
  finally show ?thesis .
qed

text \<open>
  Claim C4. In the partitions branch, with \<^verbatim>\<open>STAT\<close> an array whose last element is a
  mapping and \<^verbatim>\<open>VAL\<close> an array in it, \<^verbatim>\<open>total_consumption\<close> is the sum of the
  \<^verbatim>\<open>ENC\<close> of the entries of that \<^verbatim>\<open>VAL\<close>; with \<^verbatim>\<open>STAT\<close> missing or empty, or
  \<^verbatim>\<open>VAL\<close> missing, it is 0.0. The state is the sum when it is greater than 0 and the
  \<^verbatim>\<open>STA\<close> field (\<^verbatim>\<open>"unknown"\<close> when absent) otherwise; the attributes are the fields of
  the record with \<^verbatim>\<open>total_consumption\<close> set to the sum. With
  \<^verbatim>\<open>STAT=[.., {"VAL": [{"ENC": "1.5"}, {"ENC": "2.5"}]}]\<close> the sum and the state are 4.0.
\<close>

theorem partitions_total_consumption:
  "(map_of sd ''STAT'' = None \<or> map_of sd ''STAT'' = Some (PList [])
      \<or> (map_of sd ''STAT'' = Some (PList stat) \<and> stat \<noteq> [] \<and> last stat = PDict d
          \<and> map_of d ''VAL'' = None) \<longrightarrow>
      reduce_partitions upd sd =
        Inr (dict_get sd ''STA'' (PStr ''unknown''),
             AList.update ''total_consumption'' (PFloat (Fin 0)) sd, []))
   \<and> (map_of sd ''STAT'' = Some (PList stat) \<and> stat \<noteq> [] \<and> last stat = PDict d
        \<and> map_of d ''VAL'' = Some (PList vals) \<longrightarrow>
      (\<exists>lg. reduce_partitions upd sd =
         Inr (if fgt0 (enc_total vals) then PFloat (enc_total vals)
              else dict_get sd ''STA'' (PStr ''unknown''),
              AList.update ''total_consumption'' (PFloat (enc_total vals)) sd, lg)))
   \<and> map_of (AList.update ''total_consumption'' v sd) = (map_of sd)(''total_consumption'' \<mapsto> v)
   \<and> (map_of sd ''STAT'' =
         Some (PList [x, PDict [(''VAL'', PList [PDict [(''ENC'', PStr ''1.5'')],
                                                 PDict [(''ENC'', PStr ''2.5'')]])]]) \<longrightarrow>
      reduce_partitions upd sd =
        Inr (PFloat (Fin 4), AList.update ''total_consumption'' (PFloat (Fin 4)) sd, []))"
proof (intro conjI impI)
  assume "map_of sd ''STAT'' = None \<or> map_of sd ''STAT'' = Some (PList [])
      \<or> (map_of sd ''STAT'' = Some (PList stat) \<and> stat \<noteq> [] \<and> last stat = PDict d
          \<and> map_of d ''VAL'' = None)"
  then show "reduce_partitions upd sd =
        Inr (dict_get sd ''STA'' (PStr ''unknown''),
             AList.update ''total_consumption'' (PFloat (Fin 0)) sd, [])"
    using reduce_partitions_no_stat [of sd upd] reduce_partitions_no_val [of sd stat d upd]
    by blast
next
  assume "map_of sd ''STAT'' = Some (PList stat) \<and> stat \<noteq> [] \<and> last stat = PDict d
        \<and> map_of d ''VAL'' = Some (PList vals)"
  then show "\<exists>lg. reduce_partitions upd sd =
         Inr (if fgt0 (enc_total vals) then PFloat (enc_total vals)
              else dict_get sd ''STA'' (PStr ''unknown''),
              AList.update ''total_consumption'' (PFloat (enc_total vals)) sd, lg)"
    using reduce_partitions_val [of sd stat d vals upd] by blast
next
  show "map_of (AList.update ''total_consumption'' v sd) = (map_of sd)(''total_consumption'' \<mapsto> v)"
    by (rule AList.update_conv')
next
  let ?vals = "[PDict [(''ENC'', PStr ''1.5'')], PDict [(''ENC'', PStr ''2.5'')]]"
  let ?d = "[(''VAL'', PList ?vals)]"
  assume a: "map_of sd ''STAT'' = Some (PList [x, PDict ?d])"
  have "reduce_partitions upd sd =
     Inr (if fgt0 (enc_total ?vals) then PFloat (enc_total ?vals)
          else dict_get sd ''STA'' (PStr ''unknown''),
          AList.update ''total_consumption'' (PFloat (enc_total ?vals)) sd,
          snd (sum_enc upd ?vals (Fin 0) []))"
  proof (rule reduce_partitions_val [OF a])
    show "[x, PDict ?d] \<noteq> []" by simp
    show "last [x, PDict ?d] = PDict ?d" by simp
    show "map_of ?d ''VAL'' = Some (PList ?vals)" by simp
  qed
  then show "reduce_partitions upd sd =
        Inr (PFloat (Fin 4), AList.update ''total_consumption'' (PFloat (Fin 4)) sd, [])"
    unfolding enc_total_example sum_enc_example by simp
qed

theorem partitions_total_consumption_witness:
  "reduce_partitions False
     [(''ID'', PStr ''1''), (''STA'', PStr ''D''),
      (''STAT'', PList [PDict [], PDict [(''VAL'', PList [PDict [(''ENC'', PStr ''1.5'')],
                                                         PDict [(''ENC'', PStr ''2.5'')]])]])] =
   Inr (PFloat (Fin 4),
        [(''ID'', PStr ''1''), (''STA'', PStr ''D''),
         (''STAT'', PList [PDict [], PDict [(''VAL'', PList [PDict [(''ENC'', PStr ''1.5'')],
                                                            PDict [(''ENC'', PStr ''2.5'')]])]]),
         (''total_consumption'', PFloat (Fin 4))],
        [])"
proof -
  let ?stat = "PList [PDict [], PDict [(''VAL'', PList [PDict [(''ENC'', PStr ''1.5'')],
                                                         PDict [(''ENC'', PStr ''2.5'')]])]]"
  let ?sd = "[(''ID'', PStr ''1''), (''STA'', PStr ''D''), (''STAT'', ?stat)]"
  have h: "map_of ?sd ''STAT'' = Some ?stat"
    by simp
  have u: "AList.update ''total_consumption'' (PFloat (Fin 4)) ?sd =
           ?sd @ [(''total_consumption'', PFloat (Fin 4))]"
    by simp
  from conjunct2 [OF conjunct2 [OF conjunct2
         [OF partitions_total_consumption [where sd = ?sd and x = "PDict []" and upd = False]]]] h
  have "reduce_partitions False ?sd =
        Inr (PFloat (Fin 4), AList.update ''total_consumption'' (PFloat (Fin 4)) ?sd, [])"
    by (rule mp)
  then show ?thesis unfolding u by simp
qed

section \<open>Exceptions that escape the reducer\<close>

lemma reduce_returns_elsewhere:
  "t \<noteq> ''partitions'' \<Longrightarrow>
   reduce upd t sd =
     Inr (if t = ''system'' then reduce_system sd
          else if t = ''powerlines'' then reduce_powerlines sd
          else if t = ''domus'' then reduce_domus upd sd
          else reduce_other sd)"
  by (simp add: reduce_def)

lemma partitions_raise1:
  "reduce_partitions upd [(''ID'', PStr ''1''), (''STA'', PStr ''D''), (''STAT'', PList [PDict [(''VAL'', PNone)]])] = Inl TypeError"
  by (simp add: reduce_partitions_def dict_get_def py_last_def py_get_def py_iter_def ebind_def)

lemma partitions_raise2:
  "reduce_partitions True [(''ID'', PStr ''1''), (''STA'', PStr ''D''), (''STAT'', PStr ''n/a'')]
            = Inl AttributeError"
  by (simp add: reduce_partitions_def dict_get_def py_last_def py_get_def ebind_def)


text \<open>
  Claim C1. The system, powerlines, domus and other branches return on every record. The
  partitions branch reads \<^verbatim>\<open>stat[-1]\<close>, \<^verbatim>\<open>latest_stat.get("VAL", [])\<close> and the
  iteration over \<^verbatim>\<open>vals\<close> outside its \<^verbatim>\<open>try\<close>: on a record whose last \<^verbatim>\<open>STAT\<close>
  element has a null \<^verbatim>\<open>VAL\<close>, or whose \<^verbatim>\<open>STAT\<close> is a text, the branch raises, so the
  constructor raises, and the refresh raises and leaves the entity as it was.
\<close>

theorem partitions_reducer_raises:
  "reduce False ''partitions''
     [(''ID'', PStr ''1''), (''STA'', PStr ''D''), (''STAT'', PList [PDict [(''VAL'', PNone)]])]
   = Inl TypeError
   \<and> reduce True ''partitions''
     [(''ID'', PStr ''1''), (''STA'', PStr ''D''), (''STAT'', PStr ''n/a'')]
   = Inl AttributeError
   \<and> init (\<lambda>v. case v of PStr s \<Rightarrow> s | _ \<Rightarrow> [])
     [(''ID'', PStr ''1''), (''STA'', PStr ''D''), (''STAT'', PList [PDict [(''VAL'', PNone)]])]
     ''partitions''
   = Inl TypeError
   \<and> async_update
     \<lparr>getDom = Inr [],
      getSensor = (\<lambda>c. Inr [[(''ID'', PStr ''1''), (''STA'', PStr ''D''),
                            (''STAT'', PList [PDict [(''VAL'', PNone)]])]]),
      getSystem = Inr []\<rparr>
     \<lparr>ent_id = PStr ''1'', ent_sensor_type = ''partitions'', ent_name = PStr ''P'',
      ent_state = PStr ''D'', ent_attributes = []\<rparr>
   = (\<lparr>ent_id = PStr ''1'', ent_sensor_type = ''partitions'', ent_name = PStr ''P'',
       ent_state = PStr ''D'', ent_attributes = []\<rparr>, [], Some TypeError)"
  by (simp add: reduce_def partitions_raise1 partitions_raise2 init_def ebind_def
      async_update_def fetch_for_def)

section \<open>The setup\<close>














end
